theory Spec2Isabelle
  imports Main
begin

section \<open>Text primitives of the host\<close>

text \<open>
  Source text is a Python \<open>str\<close>. A \<^typ>\<open>char\<close> stands for one code point below 256.
  \<open>isspace\<close> is the predicate behind \<open>str.strip()\<close> and the pattern class \<open>\s\<close>,
  \<open>isword\<close> the one behind \<open>\w\<close>; both tabulate the host's classes on that range.
\<close>

definition isspace :: "char \<Rightarrow> bool" where
  "isspace c = (let n = (of_char c :: nat)
                in (9 \<le> n \<and> n \<le> 13) \<or> (28 \<le> n \<and> n \<le> 32) \<or> n = 133 \<or> n = 160)"

definition isword :: "char \<Rightarrow> bool" where
  "isword c = (let n = (of_char c :: nat)
               in (48 \<le> n \<and> n \<le> 57) \<or> (65 \<le> n \<and> n \<le> 90) \<or> n = 95 \<or> (97 \<le> n \<and> n \<le> 122)
                  \<or> n = 170 \<or> n = 178 \<or> n = 179 \<or> n = 181 \<or> n = 185 \<or> n = 186
                  \<or> (188 \<le> n \<and> n \<le> 190) \<or> (192 \<le> n \<and> n \<le> 214)
                  \<or> (216 \<le> n \<and> n \<le> 246) \<or> (248 \<le> n \<and> n \<le> 255))"

definition newline :: char where
  "newline = CHR 0x0A"

definition strip :: "string \<Rightarrow> string" where
  \<comment> \<open>\<open>s.strip()\<close>\<close>
  "strip s = rev (dropWhile isspace (rev (dropWhile isspace s)))"

definition rstrip_nl :: "string \<Rightarrow> string" where
  \<comment> \<open>\<open>s.rstrip("\n")\<close>\<close>
  "rstrip_nl s = rev (dropWhile (\<lambda>c. c = newline) (rev s))"

section \<open>Errors\<close>

datatype error =
    NameError string
  | ValueError string
  | ArityError string nat nat
  | SyntaxError string
  | TypeError string
  | UnboundLocalError string
  | KeyError string
  | HostError string

section \<open>Block Extractor\<close>

text \<open>
  \<^verbatim>\<open>
  def parse_block(lines, start_idx):
      block = []
      i = start_idx
      while i < len(lines):
          if lines[i].strip() == "end":
              return block, i
          block.append(lines[i])
          i += 1
      raise SyntaxError("Missing 'end'")
  \<close>
\<close>

function parse_block_loop :: "string list \<Rightarrow> nat \<Rightarrow> string list \<Rightarrow> error + (string list \<times> nat)" where
  "parse_block_loop lines i block =
     (if i < length lines then
        (if strip (lines ! i) = ''end'' then Inr (block, i)
         else parse_block_loop lines (Suc i) (block @ [lines ! i]))
      else Inl (SyntaxError (''Missing '' @ [CHR 0x27] @ ''end'' @ [CHR 0x27])))"
  by pat_completeness auto
termination
  by (relation "measure (\<lambda>(lines, i, block). length lines - i)") auto

definition parse_block :: "string list \<Rightarrow> nat \<Rightarrow> error + (string list \<times> nat)" where
  "parse_block lines start_idx = parse_block_loop lines start_idx []"

declare parse_block_loop.simps [simp del]

section \<open>Values and expression trees\<close>

text \<open>
  A value of the language is a host object. Integers, strings, booleans, \<open>None\<close>, the
  entries of the built-in table and the empty dictionaries of \<open>global_env\<close> are
  written out; every other host object (a float, a complex number, bytes) is a
  \<open>VHost\<close> holding an opaque handle, and only the host looks behind a handle.
\<close>

datatype pyobj = Handle nat

datatype val =
    VInt int
  | VStr string
  | VBool bool
  | VNone
  | VBuiltin string
  | VDict
  | VHost pyobj

text \<open>
  The tree returned by \<open>ast.parse(text, mode="eval")\<close>, as far as \<open>eval_ast\<close> looks at
  it. The operator constructors \<open>BinOther\<close>, \<open>UnOther\<close> and \<open>CmpOther\<close> are the operator
  classes that have no entry in the table \<open>_ops\<close>; \<open>Other\<close> is every node class that
  \<open>eval_ast\<close> has no branch for (attribute access, subscript, comprehension, lambda,
  conditional expression, ...), with its sub-expressions. The keyword arguments of a call are
  left out: \<open>eval_ast\<close> never reads them.
\<close>

datatype binop = Add | Sub | Mult | Div | Mod | Pow | BinOther string
datatype unop = UAdd | USub | UnOther string
datatype cmpop = Eq | NotEq | Lt | LtE | Gt | GtE | CmpOther string
datatype boolop = And | Or

datatype expr =
    Expression expr
  | Constant val
  | BinOp expr binop expr
  | UnaryOp unop expr
  | BoolOp boolop "expr list"
  | Compare expr "(cmpop \<times> expr) list"
  | Name string
  | Call expr "expr list"
  | Other string "expr list"

datatype parsed = ParseFailure | Parsed expr

section \<open>Interpreter state\<close>

datatype bp = BpLine int | BpAt string int

datatype item = IStr string | IVal val | IInt int | IVars

datatype out = Print "item list" | Prompt string

text \<open>
  An \<open>out\<close> is one call of \<open>print\<close> with its arguments, or the prompt written by one
  call of \<open>input\<close>. \<open>IVars\<close> stands for the dictionary \<open>env["vars"]\<close> as printed at
  that moment; an f-string is recorded as the sequence of its parts.
\<close>

text \<open>
  The module-level variables \<open>env\<close>, \<open>global_env\<close>, \<open>_breakpoints\<close>, \<open>_single_step\<close>,
  \<open>_step_over_depth\<close>, \<open>_call_depth\<close> and \<open>_watch_expressions\<close>, together with the
  part of the outside world the interpreter touches: the lines still to be read from
  standard input, what has been written to standard output, and the files (each as the
  list of lines \<open>readlines()\<close> returns).
\<close>

record state =
  vars :: "string \<rightharpoonup> val"
  funcs :: "string \<rightharpoonup> (string list \<times> string list)"
  global_env :: "string \<rightharpoonup> val"
  breakpoints :: "bp set"
  single_step :: bool
  step_over_depth :: "int option"
  call_depth :: int
  watch_expressions :: "string list"
  stdin :: "string list"
  stdout :: "out list"
  files :: "string \<rightharpoonup> string list"

type_synonym io = "string list \<times> out list \<times> (string \<rightharpoonup> string list)"

definition get_io :: "state \<Rightarrow> io" where
  "get_io s = (stdin s, stdout s, files s)"

definition set_io :: "state \<Rightarrow> io \<Rightarrow> state" where
  "set_io s w = (case w of (i, out, f) \<Rightarrow> s\<lparr>stdin := i, stdout := out, files := f\<rparr>)"

definition emit :: "item list \<Rightarrow> state \<Rightarrow> state" where
  \<comment> \<open>\<open>print(...)\<close>\<close>
  "emit xs s = s\<lparr>stdout := stdout s @ [Print xs]\<rparr>"

section \<open>The host\<close>

text \<open>
  What the Python runtime supplies: the parser, the operators of the table \<open>_ops\<close>
  applied to two values, truth testing, the functions of the table \<open>safe_functions\<close>
  and \<open>int(text)\<close>. A result \<open>None\<close> means that the host in use does not tabulate the
  case; \<open>Some (Inl e)\<close> is an exception raised by the host.
\<close>

record host =
  h_parse :: "string \<Rightarrow> parsed option"
  h_binop :: "binop \<Rightarrow> val \<Rightarrow> val \<Rightarrow> (error + val) option"
  h_unop :: "unop \<Rightarrow> val \<Rightarrow> (error + val) option"
  h_cmpop :: "cmpop \<Rightarrow> val \<Rightarrow> val \<Rightarrow> (error + val) option"
  h_truth :: "val \<Rightarrow> bool option"
  h_builtin :: "string \<Rightarrow> val list \<Rightarrow> io \<Rightarrow> ((error + val) \<times> io) option"
  h_int :: "string \<Rightarrow> (error + int) option"

definition safe_functions :: "string list" where
  "safe_functions = [''int'', ''float'', ''str'', ''len'', ''abs'', ''max'', ''min'', ''round'',
                     ''readfile'', ''writefile'', ''input'']"

text \<open>\<open>_ops[type(node.op)](left, right)\<close>: a missing key raises before the operator runs.\<close>

definition ops_bin :: "host \<Rightarrow> binop \<Rightarrow> val \<Rightarrow> val \<Rightarrow> (error + val) option" where
  "ops_bin H op l r = (case op of BinOther k \<Rightarrow> Some (Inl (KeyError k)) | _ \<Rightarrow> h_binop H op l r)"

definition ops_un :: "host \<Rightarrow> unop \<Rightarrow> val \<Rightarrow> (error + val) option" where
  "ops_un H op v = (case op of UnOther k \<Rightarrow> Some (Inl (KeyError k)) | _ \<Rightarrow> h_unop H op v)"

definition ops_cmp :: "host \<Rightarrow> cmpop \<Rightarrow> val \<Rightarrow> val \<Rightarrow> (error + val) option" where
  "ops_cmp H op l r = (case op of CmpOther k \<Rightarrow> Some (Inl (KeyError k)) | _ \<Rightarrow> h_cmpop H op l r)"

text \<open>\<open>all(values)\<close> and \<open>any(values)\<close> test the values in order and stop at the first decisive one.\<close>

fun py_all :: "host \<Rightarrow> val list \<Rightarrow> bool option" where
  "py_all H [] = Some True"
| "py_all H (v # vs) =
     (case h_truth H v of None \<Rightarrow> None | Some False \<Rightarrow> Some False | Some True \<Rightarrow> py_all H vs)"

fun py_any :: "host \<Rightarrow> val list \<Rightarrow> bool option" where
  "py_any H [] = Some False"
| "py_any H (v # vs) =
     (case h_truth H v of None \<Rightarrow> None | Some True \<Rightarrow> Some True | Some False \<Rightarrow> py_any H vs)"

section \<open>Statement Classifier\<close>

text \<open>
  The five patterns of \<open>execute_line\<close> use literals, the classes \<open>\s\<close>, \<open>\w\<close> and
  \<open>.\<close> under \<open>*\<close>, \<open>+\<close> and \<open>*?\<close>, groups around one repeated class, and \<open>$\<close>.
  \<open>rmatch\<close> is \<open>re.match\<close> on that fragment: it tries the alternatives of every
  repetition in the order of the backtracking matcher (longest first when greedy, shortest
  first when lazy) and returns the groups of the first complete match.
\<close>

datatype cls = Space | Word | Dot

fun in_cls :: "cls \<Rightarrow> char \<Rightarrow> bool" where
  "in_cls Space c = isspace c"
| "in_cls Word c = isword c"
| "in_cls Dot c = (c \<noteq> newline)"

datatype atom =
    Lit string
  | Rep cls nat bool    \<comment> \<open>class, least number of repetitions, greedy\<close>
  | Cap cls nat bool    \<comment> \<open>the same inside a group\<close>
  | Eol                 \<comment> \<open>\<open>$\<close>\<close>

definition candidates :: "cls \<Rightarrow> nat \<Rightarrow> bool \<Rightarrow> string \<Rightarrow> nat list" where
  "candidates c m greedy s =
     (let ks = [m ..< Suc (length (takeWhile (in_cls c) s))]
      in if greedy then rev ks else ks)"

fun first_some :: "('a \<Rightarrow> 'b option) \<Rightarrow> 'a list \<Rightarrow> 'b option" where
  "first_some f [] = None"
| "first_some f (x # xs) = (case f x of Some y \<Rightarrow> Some y | None \<Rightarrow> first_some f xs)"

fun rmatch :: "atom list \<Rightarrow> string \<Rightarrow> string list option" where
  "rmatch [] s = Some []"
| "rmatch (Lit l # p) s =
     (if take (length l) s = l then rmatch p (drop (length l) s) else None)"
| "rmatch (Eol # p) s = (if s = [] \<or> s = [newline] then rmatch p s else None)"
| "rmatch (Rep c m g # p) s = first_some (\<lambda>k. rmatch p (drop k s)) (candidates c m g s)"
| "rmatch (Cap c m g # p) s =
     first_some (\<lambda>k. map_option ((#) (take k s)) (rmatch p (drop k s))) (candidates c m g s)"

definition re_stryset :: "atom list" where
  \<comment> \<open>\<^verbatim>\<open>^\s*stryset\s+(\w+)\s*\(\s*(.+)\s*\)\s*$\<close>\<close>
  "re_stryset = [Rep Space 0 True, Lit ''stryset'', Rep Space 1 True, Cap Word 1 True,
                 Rep Space 0 True, Lit ''('', Rep Space 0 True, Cap Dot 1 True,
                 Rep Space 0 True, Lit '')'', Rep Space 0 True, Eol]"

definition re_stryprint :: "atom list" where
  \<comment> \<open>\<^verbatim>\<open>^\s*stryprint\s+(.+)$\<close>\<close>
  "re_stryprint = [Rep Space 0 True, Lit ''stryprint'', Rep Space 1 True, Cap Dot 1 True, Eol]"

definition re_def :: "atom list" where
  \<comment> \<open>\<^verbatim>\<open>^\s*def\s+(\w+)\s*\((.*?)\)\s*:\s*$\<close>\<close>
  "re_def = [Rep Space 0 True, Lit ''def'', Rep Space 1 True, Cap Word 1 True,
             Rep Space 0 True, Lit ''('', Cap Dot 0 False, Lit '')'', Rep Space 0 True,
             Lit '':'', Rep Space 0 True, Eol]"

definition re_return :: "atom list" where
  \<comment> \<open>\<^verbatim>\<open>^\s*return\s+(.+)$\<close>\<close>
  "re_return = [Rep Space 0 True, Lit ''return'', Rep Space 1 True, Cap Dot 1 True, Eol]"

definition re_if :: "atom list" where
  \<comment> \<open>\<^verbatim>\<open>^\s*if\s*\(\s*(.+)\s*\)\s*:\s*$\<close>\<close>
  "re_if = [Rep Space 0 True, Lit ''if'', Rep Space 0 True, Lit ''('', Rep Space 0 True,
            Cap Dot 1 True, Rep Space 0 True, Lit '')'', Rep Space 0 True, Lit '':'',
            Rep Space 0 True, Eol]"

definition match1 :: "atom list \<Rightarrow> string \<Rightarrow> string option" where
  "match1 p s = (case rmatch p s of Some [a] \<Rightarrow> Some a | _ \<Rightarrow> None)"

definition match2 :: "atom list \<Rightarrow> string \<Rightarrow> (string \<times> string) option" where
  "match2 p s = (case rmatch p s of Some [a, b] \<Rightarrow> Some (a, b) | _ \<Rightarrow> None)"

text \<open>
  The kinds of statement \<open>execute_line\<close> tells apart, in the order in which it tries its
  patterns. A line that matches none of them (\<open>end\<close>, \<open>else:\<close>, \<open>while (...):\<close>, anything
  else) falls through to the final \<open>return None\<close>.
\<close>

datatype stmt =
    SAssign string string
  | SPrint string
  | SDef string string
  | SReturn string
  | SIf string
  | SNoop

definition classify :: "string \<Rightarrow> stmt" where
  "classify stripped =
     (case match2 re_stryset stripped of Some (name, e) \<Rightarrow> SAssign name e | None \<Rightarrow>
      (case match1 re_stryprint stripped of Some e \<Rightarrow> SPrint e | None \<Rightarrow>
      (case match2 re_def stripped of Some (fname, params) \<Rightarrow> SDef fname params | None \<Rightarrow>
      (case match1 re_return stripped of Some e \<Rightarrow> SReturn e | None \<Rightarrow>
      (case match1 re_if stripped of Some e \<Rightarrow> SIf e | None \<Rightarrow> SNoop)))))"

fun split_on :: "char \<Rightarrow> string \<Rightarrow> string list" where
  \<comment> \<open>\<open>s.split(d)\<close> for a one-character separator\<close>
  "split_on d [] = [[]]"
| "split_on d (c # cs) =
     (if c = d then [] # split_on d cs
      else (case split_on d cs of [] \<Rightarrow> [[c]] | w # ws \<Rightarrow> (c # w) # ws))"

definition param_list :: "string \<Rightarrow> string list" where
  \<comment> \<open>\<open>[p.strip() for p in params.split(",") if p.strip()]\<close>\<close>
  "param_list params = filter (\<lambda>p. p \<noteq> []) (map strip (split_on (CHR '','') params))"

section \<open>Debug Session\<close>

text \<open>
  \<^verbatim>\<open>
  def check_debug_pause(source_name, lineno, line_text):
      return _single_step or (source_name, lineno) in _breakpoints or lineno in _breakpoints
  \<close>
\<close>

definition check_debug_pause :: "state \<Rightarrow> string \<Rightarrow> int \<Rightarrow> string \<Rightarrow> bool" where
  "check_debug_pause s source_name lineno line_text =
     (single_step s \<or> BpAt source_name lineno \<in> breakpoints s \<or> BpLine lineno \<in> breakpoints s)"

datatype action = Continue | Step | Next

definition startswith :: "string \<Rightarrow> string \<Rightarrow> bool" where
  "startswith s p = (take (length p) s = p)"

definition endswith :: "string \<Rightarrow> string \<Rightarrow> bool" where
  "endswith s p = (length p \<le> length s \<and> drop (length s - length p) s = p)"

fun remove_first :: "string \<Rightarrow> string list \<Rightarrow> string list" where
  \<comment> \<open>\<open>list.remove(x)\<close> when \<open>x\<close> is in the list\<close>
  "remove_first x [] = []"
| "remove_first x (y # ys) = (if x = y then ys else y # remove_first x ys)"

text \<open>
  One pass through the body of the command loop of \<open>debug_prompt\<close>, for the command
  \<open>cmd\<close> already read and stripped: \<open>Inr (Some a)\<close> when the loop returns the action
  \<open>a\<close>, \<open>Inr None\<close> when it goes round again, \<open>Inl e\<close> when \<open>int(...)\<close> raises in
  a \<open>b\<close> command. A \<open>b file:N\<close> command has no \<open>continue\<close> on its branch and runs on
  to the final \<open>print\<close>. The text printed by \<open>help\<close> is recorded by its
  first line.
\<close>

definition debug_command :: "host \<Rightarrow> string \<Rightarrow> state \<Rightarrow> ((error + action option) \<times> state) option" where
  "debug_command H cmd s =
     (if cmd = ''c'' \<or> cmd = ''continue'' then Some (Inr (Some Continue), s)
      else if cmd = ''s'' \<or> cmd = ''step'' then Some (Inr (Some Step), s)
      else if cmd = ''n'' \<or> cmd = ''next'' then Some (Inr (Some Next), s)
      else if startswith cmd ''b '' then
        (let arg = strip (drop 2 cmd) in
         if CHR '':'' \<in> set arg then
           (let fname = takeWhile (\<lambda>c. c \<noteq> CHR '':'') arg;
                ln = drop 1 (dropWhile (\<lambda>c. c \<noteq> CHR '':'') arg)
            in case h_int H ln of
                 None \<Rightarrow> None
               | Some (Inl e) \<Rightarrow> Some (Inl e, s)
               | Some (Inr k) \<Rightarrow>
                   Some (Inr None,
                         emit [IStr ''[debug] unknown debug command'']
                              (s\<lparr>breakpoints := insert (BpAt fname k) (breakpoints s)\<rparr>)))
         else
           (case h_int H arg of
              None \<Rightarrow> None
            | Some (Inl e) \<Rightarrow> Some (Inl e, s)
            | Some (Inr k) \<Rightarrow>
                Some (Inr None,
                      emit [IStr ''[debug] breakpoint set'', IStr arg]
                           (s\<lparr>breakpoints := insert (BpLine k) (breakpoints s)\<rparr>))))
      else if startswith cmd ''del '' then
        (let arg = strip (drop 4 cmd) in
         case h_int H arg of
           None \<Rightarrow> None
         | Some (Inl e) \<Rightarrow> Some (Inr None, emit [IStr ''[debug] breakpoint removed'', IStr arg] s)
         | Some (Inr k) \<Rightarrow>
             Some (Inr None,
                   emit [IStr ''[debug] breakpoint removed'', IStr arg]
                        (s\<lparr>breakpoints := breakpoints s - {BpLine k}\<rparr>)))
      else if cmd = ''bt'' \<or> cmd = ''stack'' then
        Some (Inr None,
              emit [IStr ''Call depth:'', IInt (call_depth s), IStr ''Vars snapshot:'', IVars] s)
      else if startswith cmd ''watch '' then
        (let e = strip (drop 6 cmd) in
         Some (Inr None,
               emit [IStr ''[debug] watch added:'', IStr e]
                    (s\<lparr>watch_expressions := watch_expressions s @ [e]\<rparr>)))
      else if startswith cmd ''unwatch '' then
        (let e = strip (drop 8 cmd) in
         Some (Inr None, s\<lparr>watch_expressions := remove_first e (watch_expressions s)\<rparr>))
      else if cmd = ''vars'' then Some (Inr None, emit [IVars] s)
      else if cmd = ''help'' \<or> cmd = ''?'' then Some (Inr None, emit [IStr ''debug commands:''] s)
      else Some (Inr None, emit [IStr ''[debug] unknown debug command''] s))"

text \<open>
  The command loop: \<open>input("(stry-debug) ")\<close> writes the prompt and reads one line;
  at the end of the input it raises \<open>EOFError\<close>, which the loop turns into \<open>continue\<close>.
  The first argument is the input still to be read.
\<close>

fun debug_loop :: "host \<Rightarrow> string list \<Rightarrow> state \<Rightarrow> ((error + action) \<times> state) option" where
  "debug_loop H [] s =
     Some (Inr Continue, s\<lparr>stdin := [], stdout := stdout s @ [Prompt ''(stry-debug) '']\<rparr>)"
| "debug_loop H (l # rest) s =
     (case debug_command H (strip l)
             (s\<lparr>stdin := rest, stdout := stdout s @ [Prompt ''(stry-debug) '']\<rparr>) of
        None \<Rightarrow> None
      | Some (Inl e, s1) \<Rightarrow> Some (Inl e, s1)
      | Some (Inr (Some a), s1) \<Rightarrow> Some (Inr a, s1)
      | Some (Inr None, s1) \<Rightarrow> debug_loop H rest s1)"

definition apply_action :: "action \<Rightarrow> state \<Rightarrow> state" where
  \<comment> \<open>the \<open>if action == ...\<close> chain of \<open>execute_line\<close>\<close>
  "apply_action a s =
     (case a of
        Continue \<Rightarrow> s
      | Step \<Rightarrow> s\<lparr>single_step := True\<rparr>
      | Next \<Rightarrow> s\<lparr>step_over_depth := Some (call_depth s), single_step := True\<rparr>)"

section \<open>Expression Evaluator, Function Call Machinery and Control-Flow Interpreter\<close>

text \<open>
  \<open>eval_ast\<close>, \<open>safe_eval\<close>, \<open>call_user_func\<close>, \<open>execute_line\<close> and \<open>debug_prompt\<close> call
  one another, and a program of the language can recurse or loop for ever. Every function
  of the model therefore takes a number of steps it may still make, and every call spends
  one. The outcome is \<open>None\<close> when the steps run out before the function returns (or when
  the host does not tabulate a case), \<open>Some (Inl e, s)\<close> when it raises \<open>e\<close> in state \<open>s\<close>,
  and \<open>Some (Inr x, s)\<close> when it returns \<open>x\<close> in state \<open>s\<close>.
\<close>

type_synonym 'a outcome = "((error + 'a) \<times> state) option"

definition bind :: "'a outcome \<Rightarrow> ('a \<Rightarrow> state \<Rightarrow> 'b outcome) \<Rightarrow> 'b outcome" where
  "bind m f = (case m of None \<Rightarrow> None
               | Some (Inl e, s) \<Rightarrow> Some (Inl e, s)
               | Some (Inr x, s) \<Rightarrow> f x s)"

definition host_result :: "(error + 'a) option \<Rightarrow> state \<Rightarrow> 'a outcome" where
  "host_result r s = (case r of None \<Rightarrow> None | Some x \<Rightarrow> Some (x, s))"

definition truth :: "host \<Rightarrow> val \<Rightarrow> state \<Rightarrow> bool outcome" where
  "truth H v s = (case h_truth H v of None \<Rightarrow> None | Some b \<Rightarrow> Some (Inr b, s))"

datatype signal = SigNone | SigJump nat | SigReturn val

definition is_quoted :: "string \<Rightarrow> bool" where
  "is_quoted t = ((startswith t [CHR 0x22] \<and> endswith t [CHR 0x22])
                  \<or> (startswith t [CHR 0x27] \<and> endswith t [CHR 0x27]))"

definition bind_params :: "(string \<times> val) list \<Rightarrow> (string \<rightharpoonup> val) \<Rightarrow> (string \<rightharpoonup> val)" where
  \<comment> \<open>\<open>for p, v in zip(params, arg_values): env["vars"][p] = v\<close>\<close>
  "bind_params pvs m = foldl (\<lambda>m pv. m(fst pv \<mapsto> snd pv)) m pvs"

definition block_of :: "string list option \<Rightarrow> nat option \<Rightarrow> error + (string list \<times> nat)" where
  \<comment> \<open>\<open>parse_block(lines, idx+1)\<close> with the defaults \<open>lines=None\<close>, \<open>idx=None\<close> of \<open>execute_line\<close>\<close>
  "block_of lines idx =
     (case idx of
        None \<Rightarrow> Inl (TypeError ''unsupported operand type(s) for +'')
      | Some i \<Rightarrow>
          (case lines of
             None \<Rightarrow> Inl (TypeError ''object of type NoneType has no len()'')
           | Some ls \<Rightarrow> parse_block ls (Suc i)))"

definition lineno_of :: "nat option \<Rightarrow> int" where
  \<comment> \<open>\<open>(idx+1) if idx is not None else 0\<close>\<close>
  "lineno_of idx = (case idx of None \<Rightarrow> 0 | Some i \<Rightarrow> int i + 1)"

text \<open>
  In the \<open>if\<close> branch of \<open>execute_line\<close> the loop is the single line
  \<^verbatim>\<open>while i<len(block): res=execute_line(block[i], lines=block, idx=i);\<close>
  and the statements that test \<open>res\<close> and advance \<open>i\<close> stand after it, at the indentation of
  the \<open>while\<close>. The model follows the text: with a non-empty block the loop executes the
  first line of the block again and again and is left only by an exception (\<open>if_loop\<close>);
  with an empty block the loop body never runs and the test of \<open>res\<close> reads an unbound
  local. The \<open>continue\<close> that follows is outside any loop, which the Python compiler
  rejects for the whole module; no run of the model reaches it.
\<close>

function (sequential) eval_ast :: "nat \<Rightarrow> host \<Rightarrow> expr \<Rightarrow> state \<Rightarrow> val outcome"
and eval_list :: "nat \<Rightarrow> host \<Rightarrow> expr list \<Rightarrow> state \<Rightarrow> val list outcome"
and eval_chain :: "nat \<Rightarrow> host \<Rightarrow> val \<Rightarrow> (cmpop \<times> expr) list \<Rightarrow> state \<Rightarrow> val outcome"
and safe_eval :: "nat \<Rightarrow> host \<Rightarrow> string \<Rightarrow> state \<Rightarrow> val outcome"
and call_user_func :: "nat \<Rightarrow> host \<Rightarrow> string \<Rightarrow> val list \<Rightarrow> state \<Rightarrow> val outcome"
and run_body :: "nat \<Rightarrow> host \<Rightarrow> string \<Rightarrow> string list \<Rightarrow> nat \<Rightarrow> state \<Rightarrow> val option outcome"
and execute_line :: "nat \<Rightarrow> host \<Rightarrow> string \<Rightarrow> string list option \<Rightarrow> nat option \<Rightarrow> string \<Rightarrow> state \<Rightarrow> signal outcome"
and exec_stmt :: "nat \<Rightarrow> host \<Rightarrow> stmt \<Rightarrow> string list option \<Rightarrow> nat option \<Rightarrow> state \<Rightarrow> signal outcome"
and if_loop :: "nat \<Rightarrow> host \<Rightarrow> string list \<Rightarrow> state \<Rightarrow> signal outcome"
and debug_prompt :: "nat \<Rightarrow> host \<Rightarrow> string \<Rightarrow> int \<Rightarrow> string \<Rightarrow> state \<Rightarrow> action outcome"
and watch_loop :: "nat \<Rightarrow> host \<Rightarrow> nat \<Rightarrow> state \<Rightarrow> unit outcome"
where
  "eval_ast 0 H node s = None"
| "eval_ast (Suc n) H node s =
     (case node of
        Expression body \<Rightarrow> eval_ast n H body s
      | Constant v \<Rightarrow> Some (Inr v, s)
      | BinOp l op r \<Rightarrow>
          bind (eval_ast n H l s) (\<lambda>left s1.
          bind (eval_ast n H r s1) (\<lambda>right s2.
          host_result (ops_bin H op left right) s2))
      | UnaryOp op e \<Rightarrow>
          bind (eval_ast n H e s) (\<lambda>operand s1.
          host_result (ops_un H op operand) s1)
      | BoolOp op es \<Rightarrow>
          bind (eval_list n H es s) (\<lambda>values s1.
          (case (if op = And then py_all H values else py_any H values) of
             None \<Rightarrow> None
           | Some b \<Rightarrow> Some (Inr (VBool b), s1)))
      | Compare l pairs \<Rightarrow>
          bind (eval_ast n H l s) (\<lambda>left s1. eval_chain n H left pairs s1)
      | Name idn \<Rightarrow>
          (case vars s idn of
             Some v \<Rightarrow> Some (Inr v, s)
           | None \<Rightarrow>
              (case global_env s idn of
                 Some v \<Rightarrow> Some (Inr v, s)
               | None \<Rightarrow>
                  (if idn \<in> set safe_functions then Some (Inr (VBuiltin idn), s)
                   else Some (Inl (NameError (''Unknown identifier: '' @ idn)), s))))
      | Call f args \<Rightarrow>
          (case f of
             Name fname \<Rightarrow>
               bind (eval_list n H args s) (\<lambda>vs s1.
                 if funcs s1 fname \<noteq> None then call_user_func n H fname vs s1
                 else if fname \<in> set safe_functions then
                   (case h_builtin H fname vs (get_io s1) of
                      None \<Rightarrow> None
                    | Some (r, w) \<Rightarrow> Some (r, set_io s1 w))
                 else Some (Inl (NameError (''Unknown function: '' @ fname)), s1))
           | _ \<Rightarrow> Some (Inl (ValueError ''Unsupported call expression''), s))
      | Other k es \<Rightarrow> Some (Inl (ValueError (''Unsupported expression type: '' @ k)), s))"

| "eval_list 0 H es s = None"
| "eval_list (Suc n) H es s =
     (case es of
        [] \<Rightarrow> Some (Inr [], s)
      | e # rest \<Rightarrow>
          bind (eval_ast n H e s) (\<lambda>v s1.
          bind (eval_list n H rest s1) (\<lambda>vs s2. Some (Inr (v # vs), s2))))"

| "eval_chain 0 H left pairs s = None"
| "eval_chain (Suc n) H left pairs s =
     (case pairs of
        [] \<Rightarrow> Some (Inr (VBool True), s)
      | (op, comparator) # rest \<Rightarrow>
          bind (eval_ast n H comparator s) (\<lambda>right s1.
          bind (host_result (ops_cmp H op left right) s1) (\<lambda>r s2.
          bind (truth H r s2) (\<lambda>holds s3.
            if \<not> holds then Some (Inr (VBool False), s3)
            else eval_chain n H right rest s3))))"

| "safe_eval 0 H expr_text s = None"
| "safe_eval (Suc n) H expr_text s =
     (let t = strip expr_text in
      if is_quoted t then Some (Inr (VStr (butlast (drop 1 t))), s)
      else
        (case h_parse H t of
           None \<Rightarrow> None
         | Some ParseFailure \<Rightarrow>
             (case vars s t of
                Some v \<Rightarrow> Some (Inr v, s)
              | None \<Rightarrow> Some (Inr (VStr t), s))
         | Some (Parsed node) \<Rightarrow> eval_ast n H node s))"

| "call_user_func 0 H name arg_values s = None"
| "call_user_func (Suc n) H name arg_values s =
     (case funcs s name of
        None \<Rightarrow> Some (Inl (KeyError name), s)
      | Some (params, body) \<Rightarrow>
          if length arg_values \<noteq> length params then
            Some (Inl (ArityError name (length params) (length arg_values)), s)
          else
            (let saved_vars = vars s;
                 s1 = s\<lparr>call_depth := call_depth s + 1\<rparr>;
                 s2 = s1\<lparr>vars := bind_params (zip params arg_values) (vars s1)\<rparr>
             in case run_body n H name body 0 s2 of
                  None \<Rightarrow> None
                | Some (r, s3) \<Rightarrow>
                    Some ((case r of
                             Inl e \<Rightarrow> Inl e
                           | Inr (Some v) \<Rightarrow> Inr v
                           | Inr None \<Rightarrow> Inr VNone),
                          s3\<lparr>vars := saved_vars, call_depth := call_depth s3 - 1\<rparr>)))"

| "run_body 0 H name body i s = None"
| "run_body (Suc n) H name body i s =
     (if i < length body then
        bind (execute_line n H (body ! i) (Some body) (Some i) (''<func '' @ name @ ''>'') s)
          (\<lambda>res s1.
             case res of
               SigReturn v \<Rightarrow> Some (Inr (Some v), s1)
             | SigJump j \<Rightarrow> run_body n H name body (Suc j) s1
             | SigNone \<Rightarrow> run_body n H name body (Suc i) s1)
      else Some (Inr None, s))"

| "execute_line 0 H line lines idx source_name s = None"
| "execute_line (Suc n) H line lines idx source_name s =
     (let raw = rstrip_nl line; stripped = strip raw in
      if stripped = [] \<or> startswith stripped ''#'' then Some (Inr SigNone, s)
      else
        (let lineno = lineno_of idx in
         if check_debug_pause s source_name lineno raw then
           bind (debug_prompt n H source_name lineno raw s) (\<lambda>a s1.
             exec_stmt n H (classify stripped) lines idx (apply_action a s1))
         else exec_stmt n H (classify stripped) lines idx s))"

| "exec_stmt 0 H st lines idx s = None"
| "exec_stmt (Suc n) H st lines idx s =
     (case st of
        SAssign name e \<Rightarrow>
          bind (safe_eval n H e s) (\<lambda>v s1. Some (Inr SigNone, s1\<lparr>vars := (vars s1)(name \<mapsto> v)\<rparr>))
      | SPrint e \<Rightarrow>
          bind (safe_eval n H e s) (\<lambda>v s1. Some (Inr SigNone, emit [IVal v] s1))
      | SDef fname params \<Rightarrow>
          (case block_of lines idx of
             Inl e \<Rightarrow> Some (Inl e, s)
           | Inr (block, end_idx) \<Rightarrow>
               Some (Inr (SigJump end_idx),
                     s\<lparr>funcs := (funcs s)(fname \<mapsto> (param_list params, block))\<rparr>))
      | SReturn e \<Rightarrow>
          bind (safe_eval n H e s) (\<lambda>v s1. Some (Inr (SigReturn v), s1))
      | SIf e \<Rightarrow>
          bind (safe_eval n H e s) (\<lambda>cond s1.
            case block_of lines idx of
              Inl err \<Rightarrow> Some (Inl err, s1)
            | Inr (block, end_idx) \<Rightarrow>
                bind (truth H cond s1) (\<lambda>c s2.
                  if c then
                    (if block = [] then Some (Inl (UnboundLocalError ''res''), s2)
                     else if_loop n H block s2)
                  else Some (Inr (SigJump end_idx), s2)))
      | SNoop \<Rightarrow> Some (Inr SigNone, s))"

| "if_loop 0 H block s = None"
| "if_loop (Suc n) H block s =
     bind (execute_line n H (block ! 0) (Some block) (Some 0) ''<stdin>'' s)
       (\<lambda>res s1. if_loop n H block s1)"

| "debug_prompt 0 H source_name lineno line_text s = None"
| "debug_prompt (Suc n) H source_name lineno line_text s =
     (let s0 = emit [IStr ''== PAUSED at'', IStr source_name, IInt lineno, IStr ''>>'',
                     IStr (strip line_text)] s
      in if watch_expressions s0 \<noteq> [] then
           bind (watch_loop n H 0 (emit [IStr ''  watches:''] s0))
             (\<lambda>u s1. debug_loop H (stdin s1) s1)
         else debug_loop H (stdin s0) s0)"

| "watch_loop 0 H i s = None"
| "watch_loop (Suc n) H i s =
     (if i < length (watch_expressions s) then
        (let w = watch_expressions s ! i in
         case safe_eval n H w s of
           None \<Rightarrow> None
         | Some (Inl e, s1) \<Rightarrow>
             watch_loop n H (Suc i) (emit [IStr ''   -'', IStr w, IStr ''= <err>''] s1)
         | Some (Inr v, s1) \<Rightarrow>
             watch_loop n H (Suc i) (emit [IStr ''   -'', IStr w, IStr ''='', IVal v] s1))
      else Some (Inr (), s))"
  by pat_completeness auto
termination
  by (relation "measure (case_sum
        (case_sum (case_sum fst fst) (case_sum fst (case_sum fst fst)))
        (case_sum (case_sum fst (case_sum fst fst)) (case_sum fst (case_sum fst fst))))")
     simp_all

text \<open>
  \<^verbatim>\<open>
  def run_file(path):
      if not os.path.isfile(path): print("File not found:", path); return
      with open(path,"r",encoding="utf-8") as f:
          lines=f.readlines()
      i=0
      while i<len(lines):
          res=execute_line(lines[i], lines, i, source_name=path)
          if isinstance(res,int): i=res
          elif isinstance(res,ReturnSignal): return res.value
          i+=1
  \<close>
\<close>

fun run_lines :: "nat \<Rightarrow> host \<Rightarrow> string \<Rightarrow> string list \<Rightarrow> nat \<Rightarrow> state \<Rightarrow> val outcome" where
  "run_lines 0 H path lines i s = None"
| "run_lines (Suc n) H path lines i s =
     (if i < length lines then
        bind (execute_line n H (lines ! i) (Some lines) (Some i) path s)
          (\<lambda>res s1.
             case res of
               SigJump j \<Rightarrow> run_lines n H path lines (Suc j) s1
             | SigReturn v \<Rightarrow> Some (Inr v, s1)
             | SigNone \<Rightarrow> run_lines n H path lines (Suc i) s1)
      else Some (Inr VNone, s))"

definition run_file :: "nat \<Rightarrow> host \<Rightarrow> string \<Rightarrow> state \<Rightarrow> val outcome" where
  "run_file n H path s =
     (case files s path of
        None \<Rightarrow> Some (Inr VNone, emit [IStr ''File not found:'', IStr path] s)
      | Some lines \<Rightarrow> run_lines n H path lines 0 s)"

section \<open>A host for the examples\<close>

text \<open>
  The examples below run on a host that tabulates the parser on the expression texts they
  use, and the operators and truth test of Python on integers and booleans. It tabulates
  nothing else.
\<close>

definition ex_parse :: "string \<Rightarrow> parsed option" where
  "ex_parse = map_of
     [(''0'', Parsed (Expression (Constant (VInt 0)))),
      (''1'', Parsed (Expression (Constant (VInt 1)))),
      (''5'', Parsed (Expression (Constant (VInt 5)))),
      (''99'', Parsed (Expression (Constant (VInt 99)))),
      (''True'', Parsed (Expression (Constant (VBool True)))),
      (''x'', Parsed (Expression (Name ''x''))),
      (''y'', Parsed (Expression (Name ''y''))),
      (''x + 1'', Parsed (Expression (BinOp (Name ''x'') Add (Constant (VInt 1))))),
      (''x > 5'', Parsed (Expression (Compare (Name ''x'') [(Gt, Constant (VInt 5))]))),
      (''f()'', Parsed (Expression (Call (Name ''f'') []))),
      (''1 < 2 < 3'', Parsed (Expression
         (Compare (Constant (VInt 1)) [(Lt, Constant (VInt 2)), (Lt, Constant (VInt 3))]))),
      (''3 < 2 < 1'', Parsed (Expression
         (Compare (Constant (VInt 3)) [(Lt, Constant (VInt 2)), (Lt, Constant (VInt 1))]))),
      (''1 > 2 < x.y'', Parsed (Expression
         (Compare (Constant (VInt 1))
            [(Gt, Constant (VInt 2)), (Lt, Other ''Attribute'' [Name ''x''])]))),
      (''x.y + 1'', Parsed (Expression
         (BinOp (Other ''Attribute'' [Name ''x'']) Add (Constant (VInt 1))))),
      (''1 +'', ParseFailure),
      (''if'', ParseFailure)]"

fun int_binop :: "binop \<Rightarrow> val \<Rightarrow> val \<Rightarrow> (error + val) option" where
  "int_binop Add (VInt a) (VInt b) = Some (Inr (VInt (a + b)))"
| "int_binop Sub (VInt a) (VInt b) = Some (Inr (VInt (a - b)))"
| "int_binop Mult (VInt a) (VInt b) = Some (Inr (VInt (a * b)))"
| "int_binop _ _ _ = None"

fun int_unop :: "unop \<Rightarrow> val \<Rightarrow> (error + val) option" where
  "int_unop UAdd (VInt a) = Some (Inr (VInt a))"
| "int_unop USub (VInt a) = Some (Inr (VInt (- a)))"
| "int_unop _ _ = None"

fun int_cmpop :: "cmpop \<Rightarrow> val \<Rightarrow> val \<Rightarrow> (error + val) option" where
  "int_cmpop Eq (VInt a) (VInt b) = Some (Inr (VBool (a = b)))"
| "int_cmpop NotEq (VInt a) (VInt b) = Some (Inr (VBool (a \<noteq> b)))"
| "int_cmpop Lt (VInt a) (VInt b) = Some (Inr (VBool (a < b)))"
| "int_cmpop LtE (VInt a) (VInt b) = Some (Inr (VBool (a \<le> b)))"
| "int_cmpop Gt (VInt a) (VInt b) = Some (Inr (VBool (a > b)))"
| "int_cmpop GtE (VInt a) (VInt b) = Some (Inr (VBool (a \<ge> b)))"
| "int_cmpop _ _ _ = None"

fun ex_truth :: "val \<Rightarrow> bool option" where
  "ex_truth (VBool b) = Some b"
| "ex_truth (VInt i) = Some (i \<noteq> 0)"
| "ex_truth VNone = Some False"
| "ex_truth _ = None"

definition ex_host :: host where
  "ex_host = \<lparr>h_parse = ex_parse, h_binop = int_binop, h_unop = int_unop,
              h_cmpop = int_cmpop, h_truth = ex_truth,
              h_builtin = (\<lambda>name args w. None), h_int = (\<lambda>text. None)\<rparr>"

definition init_state :: state where
  \<comment> \<open>the module-level variables as the module sets them, with no input and no files\<close>
  "init_state = \<lparr>vars = Map.empty, funcs = Map.empty,
                 global_env = [''__modules__'' \<mapsto> VDict, ''__packages__'' \<mapsto> VDict],
                 breakpoints = {}, single_step = False, step_over_depth = None,
                 call_depth = 0, watch_expressions = [], stdin = [], stdout = [],
                 files = Map.empty\<rparr>"

section \<open>Truth of a comparison\<close>

definition holds :: "host \<Rightarrow> cmpop \<Rightarrow> val \<Rightarrow> val \<Rightarrow> bool option" where
  \<comment> \<open>whether \<open>a OP b\<close> holds: the truth of \<open>_ops[type(op)](a, b)\<close>; \<open>None\<close> when the
      comparison raises\<close>
  "holds H op a b = (case ops_cmp H op a b of Some (Inr r) \<Rightarrow> h_truth H r | _ \<Rightarrow> None)"

section \<open>Constructs outside the restricted grammar\<close>



section \<open>Example programs\<close>

definition file_lines :: "string list \<Rightarrow> string list" where
  \<comment> \<open>the lines of a file as \<open>readlines()\<close> returns them, each with its line end\<close>
  "file_lines ls = map (\<lambda>l. l @ [newline]) ls"

definition nested_example :: "string list" where
  "nested_example = [''if (a):'', ''while (b):'', ''stryset x (1)'', ''end'', ''stryprint x'', ''end'']"

definition prog_while :: "string list" where
  "prog_while = file_lines [''stryset x (0)'', ''while (x > 5):'', ''stryset x (x + 1)'', ''end'']"

definition prog_step :: "string list" where
  "prog_step = file_lines [''def f():'', ''stryset y (1)'', ''return y'', ''end'', ''stryset x (f())'']"




section \<open>The Block Extractor stops at the first terminator\<close>

lemma parse_block_loop_Inr:
  "parse_block_loop lines i block = Inr (b, e) \<Longrightarrow>
     i \<le> e \<and> e < length lines \<and> strip (lines ! e) = ''end''
     \<and> (\<forall>j. i \<le> j \<and> j < e \<longrightarrow> strip (lines ! j) \<noteq> ''end'')
     \<and> b = block @ take (e - i) (drop i lines)"
proof (induction lines i block rule: parse_block_loop.induct)
  case (1 lines i block)
  show ?case
  proof (cases "i < length lines \<and> strip (lines ! i) \<noteq> ''end''")
    case True
    with "1.prems" have rec: "parse_block_loop lines (Suc i) (block @ [lines ! i]) = Inr (b, e)"
      by (subst (asm) parse_block_loop.simps) simp
    from "1.IH" True rec have ih:
      "Suc i \<le> e \<and> e < length lines \<and> strip (lines ! e) = ''end''
       \<and> (\<forall>j. Suc i \<le> j \<and> j < e \<longrightarrow> strip (lines ! j) \<noteq> ''end'')
       \<and> b = (block @ [lines ! i]) @ take (e - Suc i) (drop (Suc i) lines)"
      by blast
    have e: "e - i = Suc (e - Suc i)" using ih by arith
    have d: "drop i lines = lines ! i # drop (Suc i) lines"
      using True by (simp add: Cons_nth_drop_Suc)
    have t: "take (e - i) (drop i lines) = lines ! i # take (e - Suc i) (drop (Suc i) lines)"
      unfolding e d by simp
    have q: "\<forall>j. i \<le> j \<and> j < e \<longrightarrow> strip (lines ! j) \<noteq> ''end''"
    proof (intro allI impI)
      fix j assume j: "i \<le> j \<and> j < e"
      show "strip (lines ! j) \<noteq> ''end''"
      proof (cases "j = i")
        case True then show ?thesis using \<open>i < length lines \<and> strip (lines ! i) \<noteq> ''end''\<close> by simp
      next
        case False
        then have "Suc i \<le> j \<and> j < e" using j by arith
        then show ?thesis using ih by blast
      qed
    qed
    have i: "i \<le> e" using ih by arith
    show ?thesis using ih t q i by simp
  next
    case False
    from "1.prems" have "parse_block_loop lines i block = Inr (b, e)" .
    then show ?thesis using False
      by (subst (asm) parse_block_loop.simps) (auto split: if_splits)
  qed
qed

lemma parse_block_loop_finds:
  "i \<le> e \<Longrightarrow> e < length lines \<Longrightarrow> strip (lines ! e) = ''end'' \<Longrightarrow>
   (\<forall>j. i \<le> j \<and> j < e \<longrightarrow> strip (lines ! j) \<noteq> ''end'') \<Longrightarrow>
   parse_block_loop lines i block = Inr (block @ take (e - i) (drop i lines), e)"
proof (induction "e - i" arbitrary: i block)
  case 0
  then have "i = e" by simp
  with 0 show ?case by (subst parse_block_loop.simps) simp
next
  case (Suc k)
  then have lt: "i < e" by arith
  with Suc.prems have ne: "strip (lines ! i) \<noteq> ''end''" and il: "i < length lines" by auto
  have k: "k = e - Suc i" using Suc.hyps(2) by arith
  have le: "Suc i \<le> e" using lt by arith
  have q: "\<forall>j. Suc i \<le> j \<and> j < e \<longrightarrow> strip (lines ! j) \<noteq> ''end''"
    using Suc.prems(4) by auto
  have ih: "parse_block_loop lines (Suc i) (block @ [lines ! i])
            = Inr ((block @ [lines ! i]) @ take (e - Suc i) (drop (Suc i) lines), e)"
    using Suc.hyps(1)[OF k le Suc.prems(2) Suc.prems(3) q] .
  have e: "e - i = Suc (e - Suc i)" using lt by arith
  have d: "drop i lines = lines ! i # drop (Suc i) lines"
    using il by (simp add: Cons_nth_drop_Suc)
  have t: "take (e - i) (drop i lines) = lines ! i # take (e - Suc i) (drop (Suc i) lines)"
    unfolding e d by simp
  show ?case
    using ih ne il t by (subst parse_block_loop.simps) simp
qed

lemma parse_block_first_end:
  "parse_block lines start = Inr (block, e) \<longleftrightarrow>
     (start \<le> e \<and> e < length lines \<and> strip (lines ! e) = ''end''
      \<and> (\<forall>j. start \<le> j \<and> j < e \<longrightarrow> strip (lines ! j) \<noteq> ''end'')
      \<and> block = take (e - start) (drop start lines))"
proof
  assume "parse_block lines start = Inr (block, e)"
  then show "start \<le> e \<and> e < length lines \<and> strip (lines ! e) = ''end''
      \<and> (\<forall>j. start \<le> j \<and> j < e \<longrightarrow> strip (lines ! j) \<noteq> ''end'')
      \<and> block = take (e - start) (drop start lines)"
    unfolding parse_block_def using parse_block_loop_Inr[of lines start "[]" block e] by simp
next
  assume a: "start \<le> e \<and> e < length lines \<and> strip (lines ! e) = ''end''
      \<and> (\<forall>j. start \<le> j \<and> j < e \<longrightarrow> strip (lines ! j) \<noteq> ''end'')
      \<and> block = take (e - start) (drop start lines)"
  then show "parse_block lines start = Inr (block, e)"
    unfolding parse_block_def using parse_block_loop_finds[of start e lines "[]"] by simp
qed


text \<open>
  Claim C1. The claim: the Block Extractor counts nesting depth, so that in a two-level
  nested construct the terminator of the inner block is never taken for the terminator of
  the enclosing block, and the outer body holds the whole inner block with its terminator.
  \<open>parse_block\<close> keeps no counter (\<open>parse_block_first_end\<close>): started on the line after
  the outer \<open>if\<close> of \<open>nested_example\<close> it returns index 3, the terminator of the inner
  \<open>while\<close>, and a body of two lines, not index 5 and the four lines up to it.
\<close>

theorem parse_block_nested_stops_at_inner_end:
  "parse_block nested_example 1 = Inr ([''while (b):'', ''stryset x (1)''], 3)
   \<and> parse_block nested_example 1
       \<noteq> Inr ([''while (b):'', ''stryset x (1)'', ''end'', ''stryprint x''], 5)"
  by code_simp

section \<open>Blank lines and comments\<close>

lemma isspace_newline: "isspace newline"
  by (simp add: isspace_def newline_def)

lemma strip_append_spaces:
  assumes "\<forall>c \<in> set ws. isspace c"
  shows "strip (p @ ws) = strip p"
proof (cases "\<forall>c \<in> set p. isspace c")
  case True
  have a: "dropWhile isspace (p @ ws) = []"
    using True assms by (auto simp: dropWhile_eq_Nil_conv)
  have b: "dropWhile isspace p = []"
    using True by (auto simp: dropWhile_eq_Nil_conv)
  show ?thesis unfolding strip_def a b by simp
next
  case False
  then obtain x where x: "x \<in> set p" "\<not> isspace x" by blast
  have a: "dropWhile isspace (p @ ws) = dropWhile isspace p @ ws"
    using x by (rule dropWhile_append1)
  have b: "dropWhile isspace (rev ws @ rev (dropWhile isspace p))
           = dropWhile isspace (rev (dropWhile isspace p))"
    using assms by (intro dropWhile_append2) simp
  show ?thesis unfolding strip_def a by (simp add: b)
qed

lemma strip_rstrip_nl: "strip (rstrip_nl l) = strip l"
proof -
  have "rev l = takeWhile (\<lambda>c. c = newline) (rev l) @ dropWhile (\<lambda>c. c = newline) (rev l)"
    by simp
  then have "l = rev (dropWhile (\<lambda>c. c = newline) (rev l)) @ rev (takeWhile (\<lambda>c. c = newline) (rev l))"
    by (metis rev_append rev_rev_ident)
  then have l: "l = rstrip_nl l @ rev (takeWhile (\<lambda>c. c = newline) (rev l))"
    by (simp add: rstrip_nl_def)
  have "\<forall>c \<in> set (rev (takeWhile (\<lambda>c. c = newline) (rev l))). isspace c"
    using isspace_newline by (auto dest: set_takeWhileD)
  from strip_append_spaces[OF this, of "rstrip_nl l"] l show ?thesis by simp
qed





section \<open>The fallback of the Expression Evaluator\<close>



section \<open>Reading the outcome of a run\<close>



section \<open>A return statement at the top level of a file\<close>





section \<open>Function calls restore the caller's variables\<close>




section \<open>The statement \<open>while\<close>\<close>

lemma while_matches_no_pattern: "classify (''while'' @ rest) = SNoop"
  by (simp add: classify_def match1_def match2_def re_stryset_def re_stryprint_def re_def_def
        re_return_def re_if_def rmatch.simps candidates_def isspace_def Let_def)

lemma while_line_does_nothing:
  assumes "strip line = ''while'' @ rest"
      and "\<not> check_debug_pause s source_name (lineno_of idx) (rstrip_nl line)"
  shows "execute_line (Suc (Suc n)) H line lines idx source_name s = Some (Inr SigNone, s)"
proof -
  have c: "classify (strip line) = SNoop"
    unfolding assms(1) by (rule while_matches_no_pattern)
  have ne: "strip line \<noteq> []" "\<not> startswith (strip line) ''#''"
    unfolding assms(1) by (simp_all add: startswith_def)
  show ?thesis
    using assms(2) ne by (simp add: strip_rstrip_nl Let_def c)
qed

text \<open>
  Claim C2. The claim: a \<open>while (cond):\<close> ... \<open>end\<close> construct evaluates its condition
  before each iteration and ends the first time the condition is false. \<open>execute_line\<close>
  has no pattern for \<open>while\<close> (\<open>while_line_does_nothing\<close>): the line is left by the
  final \<open>return None\<close>, the lines
  of the body are executed once as ordinary statements, and \<open>end\<close> does nothing. In the
  file \<open>prog_while\<close> the condition \<open>x > 5\<close> is false from the start, and the body still
  runs: the run ends with \<open>x = 1\<close>, not 0.
\<close>

theorem while_body_runs_once_when_condition_is_false:
  "map_option (\<lambda>(r, s). (r, vars s ''x''))
     (run_file 20 ex_host ''prog.stryke'' (init_state\<lparr>files := [''prog.stryke'' \<mapsto> prog_while]\<rparr>))
   = Some (Inr VNone, Some (VInt 1))"
  by code_simp

section \<open>Step-over\<close>

lemma check_debug_pause_ignores_depth:
  "check_debug_pause (s\<lparr>step_over_depth := d, call_depth := k\<rparr>) source_name lineno line_text
   = check_debug_pause s source_name lineno line_text"
  by (simp add: check_debug_pause_def)


text \<open>
  Claim C6. The claim: after \<open>next\<close>, statements executed inside deeper calls do not pause;
  execution pauses again when the call depth is back at the recorded value. \<open>next\<close>
  records the depth and switches single-stepping on, and \<open>check_debug_pause\<close> never reads
  the recorded depth (\<open>check_debug_pause_ignores_depth\<close>). In the file \<open>prog_step\<close>, with
  a breakpoint on line 5 and the commands \<open>n\<close>, \<open>c\<close>, \<open>c\<close>, the depth 0 is recorded at
  line 5 and the session then pauses at both lines of the body of \<open>f\<close>, at depth 1.
\<close>

theorem step_over_pauses_inside_the_call:
  "map_option (\<lambda>(r, s). (r, step_over_depth s, stdout s))
     (run_file 30 ex_host ''prog.stryke''
        (init_state\<lparr>files := [''prog.stryke'' \<mapsto> prog_step], breakpoints := {BpLine 5},
                     stdin := [''n'', ''c'', ''c'']\<rparr>))
   = Some (Inr VNone, Some 0,
       [Print [IStr ''== PAUSED at'', IStr ''prog.stryke'', IInt 5, IStr ''>>'', IStr ''stryset x (f())''],
        Prompt ''(stry-debug) '',
        Print [IStr ''== PAUSED at'', IStr ''<func f>'', IInt 1, IStr ''>>'', IStr ''stryset y (1)''],
        Prompt ''(stry-debug) '',
        Print [IStr ''== PAUSED at'', IStr ''<func f>'', IInt 2, IStr ''>>'', IStr ''return y''],
        Prompt ''(stry-debug) ''])"
  by code_simp

section \<open>Comparison chains\<close>

text \<open>
  Claim C7. For a chain \<open>a OP1 b OP2 c\<close> whose operands evaluate, \<open>eval_ast\<close> returns true
  exactly when \<open>a OP1 b\<close> holds and \<open>b OP2 c\<close> holds. The pairs are tested from left to
  right: when the first pair fails the result is false and \<open>c\<close> is not evaluated (the
  state is the one after \<open>b\<close>); \<open>c\<close> has to evaluate only when the first pair holds.
  The operands are evaluated with the steps the chain leaves them.
\<close>

theorem comparison_chain_of_two:
  assumes a: "eval_ast (Suc (Suc n)) H ea s = Some (Inr a, s1)"
      and b: "eval_ast (Suc n) H eb s1 = Some (Inr b, s2)"
      and p: "holds H op1 a b = Some p"
      and c: "p \<Longrightarrow> eval_ast n H ec s2 = Some (Inr c, s3) \<and> holds H op2 b c = Some q"
  shows "eval_ast (Suc (Suc (Suc n))) H (Compare ea [(op1, eb), (op2, ec)]) s
         = Some (Inr (VBool (p \<and> q)), if p then s3 else s2)"
proof -
  from p obtain r1 where r1: "ops_cmp H op1 a b = Some (Inr r1)" "h_truth H r1 = Some p"
    by (auto simp: holds_def split: option.splits sum.splits)
  have outer: "eval_ast (Suc (Suc (Suc n))) H (Compare ea [(op1, eb), (op2, ec)]) s
               = eval_chain (Suc (Suc n)) H a [(op1, eb), (op2, ec)] s1"
    using a by (simp add: bind_def del: eval_chain.simps)
  have first: "eval_chain (Suc (Suc n)) H a [(op1, eb), (op2, ec)] s1
               = (if \<not> p then Some (Inr (VBool False), s2)
                  else eval_chain (Suc n) H b [(op2, ec)] s2)"
    using b r1 by (simp add: bind_def host_result_def truth_def)
  show ?thesis
  proof (cases p)
    case False
    with outer first show ?thesis by simp
  next
    case True
    with c have ec: "eval_ast n H ec s2 = Some (Inr c, s3)" and q: "holds H op2 b c = Some q"
      by auto
    from q obtain r2 where r2: "ops_cmp H op2 b c = Some (Inr r2)" "h_truth H r2 = Some q"
      by (auto simp: holds_def split: option.splits sum.splits)
    from ec obtain m where m: "n = Suc m" by (cases n) auto
    have last: "eval_chain n H c [] s3 = Some (Inr (VBool True), s3)"
      unfolding m by simp
    have inner: "eval_chain (Suc n) H b [(op2, ec)] s2 = Some (Inr (VBool q), s3)"
      using ec r2 last by (simp add: bind_def host_result_def truth_def)
    from outer first True inner show ?thesis by simp
  qed
qed


theorem comparison_chain_of_two_witness:
  "eval_ast (Suc (Suc (Suc (Suc 0)))) ex_host
     (Compare (Constant (VInt 1)) [(Lt, Constant (VInt 2)), (Lt, Constant (VInt 3))]) init_state
     = Some (Inr (VBool True), init_state)
   \<and> eval_ast (Suc (Suc (Suc (Suc 0)))) ex_host
     (Compare (Constant (VInt 3)) [(Lt, Constant (VInt 2)), (Lt, Other ''Attribute'' [Name ''x''])]) init_state
     = Some (Inr (VBool False), init_state)"
proof -
  have p1: "holds ex_host Lt (VInt 1) (VInt 2) = Some True"
    and p2: "holds ex_host Lt (VInt 2) (VInt 3) = Some True"
    and p3: "holds ex_host Lt (VInt 3) (VInt 2) = Some False"
    by (simp_all add: holds_def ops_cmp_def ex_host_def)
  have t: "eval_ast (Suc (Suc (Suc (Suc 0)))) ex_host
             (Compare (Constant (VInt 1)) [(Lt, Constant (VInt 2)), (Lt, Constant (VInt 3))]) init_state
           = Some (Inr (VBool (True \<and> True)), if True then init_state else init_state)"
    by (rule comparison_chain_of_two[where a = "VInt 1" and b = "VInt 2" and c = "VInt 3"
              and ?s1.0 = init_state and ?s2.0 = init_state])
       (simp_all add: p1 p2)
  have f: "eval_ast (Suc (Suc (Suc (Suc 0)))) ex_host
             (Compare (Constant (VInt 3)) [(Lt, Constant (VInt 2)), (Lt, Other ''Attribute'' [Name ''x''])]) init_state
           = Some (Inr (VBool (False \<and> True)), if False then init_state else init_state)"
    by (rule comparison_chain_of_two[where a = "VInt 3" and b = "VInt 2" and c = "VInt 1"
              and ?s1.0 = init_state and ?s2.0 = init_state])
       (simp_all add: p3)
  from t f show ?thesis by simp
qed


section \<open>Assignment and the name assigned\<close>






declare rmatch.simps [simp del]












section \<open>Constructs outside the restricted grammar are not evaluated\<close>





lemma unsupported_node_raises:
  "eval_ast (Suc n) H (Other k es) s
   = Some (Inl (ValueError (''Unsupported expression type: '' @ k)), s)"
  by simp

lemma non_name_call_raises:
  "(\<forall>fname. f \<noteq> Name fname) \<Longrightarrow>
   eval_ast (Suc n) H (Call f args) s = Some (Inl (ValueError ''Unsupported call expression''), s)"
  by (cases f) auto




end
